theory Spec2Isabelle
  imports Main
begin

section \<open>The event-indexer configuration generator\<close>

text \<open>
  A shallow embedding of
  \<^verbatim>\<open>packages/bridge-ui/scripts/vite-plugins/generateEventIndexerConfig.ts\<close>.
  The hook \<open>buildStart\<close> reads \<open>process.env\<close>, decodes and validates a payload, builds a
  source file in memory, saves it, formats it and writes it again. Every effect of the
  hook is explicit here: the logger and console calls and the writes are recorded, in
  order, in the \<open>events\<close> of a \<open>world\<close>, whose \<open>files\<close> hold the file system; every
  \<^verbatim>\<open>throw\<close> is a result \<open>Inl\<close>.
\<close>

subsection \<open>JavaScript values and errors\<close>

datatype error = Error string | TypeError

text \<open>
  Modelled from the spec: the type declarations \<^verbatim>\<open>EventIndexerConfig\<close> and
  \<^verbatim>\<open>ConfiguredEventIndexer\<close> of \<^verbatim>\<open>src/libs/eventIndexer/types\<close> are not among the
  sources. An entry has a sequence of chain identifiers (integers), which the formatter
  tests for presence, and a URL string.
\<close>

record EventIndexerConfig =
  chainIds :: "int list option"
  url :: string

text \<open>
  The value the decoder returns, as far as the hook inspects it dynamically: the hook
  reads the property \<^verbatim>\<open>configuredEventIndexer\<close>, tests it for truthiness and with
  \<^verbatim>\<open>Array.isArray\<close>. The elements of an array are typed as the source types them
  (\<^verbatim>\<open>EventIndexerConfig[]\<close>). Only the truthiness of a number is observed, so numbers
  are integers here.
\<close>

datatype jsvalue =
    JUndefined
  | JNull
  | JBool bool
  | JNum int
  | JStr string
  | JArr "EventIndexerConfig list"
  | JObj "(string \<times> jsvalue) list"

fun truthy :: "jsvalue \<Rightarrow> bool" where
  "truthy JUndefined = False"
| "truthy JNull = False"
| "truthy (JBool b) = b"
| "truthy (JNum n) = (n \<noteq> 0)"
| "truthy (JStr s) = (s \<noteq> [])"
| "truthy (JArr xs) = True"
| "truthy (JObj kvs) = True"

fun isArray :: "jsvalue \<Rightarrow> bool" where
  "isArray (JArr xs) = True"
| "isArray v = False"

text \<open>
  Reading a property that is not a built-in one: \<^verbatim>\<open>undefined\<close> and \<^verbatim>\<open>null\<close> throw a
  TypeError, an object yields the property's value or \<^verbatim>\<open>undefined\<close>, every other
  value yields \<^verbatim>\<open>undefined\<close>.
\<close>

fun getProperty :: "jsvalue \<Rightarrow> string \<Rightarrow> error + jsvalue" where
  "getProperty JUndefined k = Inl TypeError"
| "getProperty JNull k = Inl TypeError"
| "getProperty (JObj kvs) k = (case map_of kvs k of None \<Rightarrow> Inr JUndefined | Some v \<Rightarrow> Inr v)"
| "getProperty v k = Inr JUndefined"

subsection \<open>Strings of numbers and \<^verbatim>\<open>Array.prototype.join\<close>\<close>

text \<open>
  A chain identifier is a JavaScript number that holds an integer. On a safe integer, one
  of magnitude at most \<open>2^53 - 1\<close>, \<^verbatim>\<open>Number.prototype.toString\<close> gives the decimal digits,
  with a minus sign when negative. Beyond that range JavaScript rounds the digits, and
  from \<open>10^21\<close> on it switches to exponent notation; \<open>numberToString\<close> is JavaScript's
  function on safe integers only, and what is proved of the digits it yields is proved
  under \<open>isSafeInteger\<close>.
\<close>

definition isSafeInteger :: "int \<Rightarrow> bool" where
  "isSafeInteger i = (- 9007199254740991 \<le> i \<and> i \<le> 9007199254740991)"

definition digitChar :: "nat \<Rightarrow> char" where
  "digitChar d = ''0123456789'' ! (d mod 10)"

fun digitsOf :: "nat \<Rightarrow> string" where
  "digitsOf n =
     (if n < 10 then [digitChar n]
      else digitsOf (n div 10) @ [digitChar (n mod 10)])"

declare digitsOf.simps [simp del]

definition numberToString :: "int \<Rightarrow> string" where
  "numberToString i = (if i < 0 then CHR ''-'' # digitsOf (nat (- i)) else digitsOf (nat i))"

text \<open>
  \<^verbatim>\<open>join\<close> as ECMAScript defines it: a loop over the elements that starts from the
  empty string \<open>R\<close>, appends the separator before every element but the first, and
  appends the element's string.
\<close>

fun joinLoop :: "('a \<Rightarrow> string) \<Rightarrow> string \<Rightarrow> string \<Rightarrow> bool \<Rightarrow> 'a list \<Rightarrow> string" where
  "joinLoop toStr sep R first [] = R"
| "joinLoop toStr sep R first (x # xs) =
     joinLoop toStr sep ((if first then R else R @ sep) @ toStr x) False xs"

definition join :: "('a \<Rightarrow> string) \<Rightarrow> string \<Rightarrow> 'a list \<Rightarrow> string" where
  "join toStr sep xs = joinLoop toStr sep [] True xs"

subsection \<open>The literal formatter\<close>

definition formatEventIndexerConfigToTsLiteral :: "EventIndexerConfig \<Rightarrow> string" where
  "formatEventIndexerConfigToTsLiteral config =
     ''{chainIds: [''
       @ (case chainIds config of Some ids \<Rightarrow> join numberToString '', '' ids | None \<Rightarrow> [])
       @ ''], url: '' @ [CHR 0x22] @ url config @ [CHR 0x22] @ ''}''"

definition formatObjectToTsLiteral :: "EventIndexerConfig list \<Rightarrow> string" where
  "formatObjectToTsLiteral indexer =
     ''['' @ join id '', '' (map formatEventIndexerConfigToTsLiteral indexer) @ '']''"

subsection \<open>The source file under construction\<close>

text \<open>
  ts-morph (\<^verbatim>\<open>Project\<close>, \<^verbatim>\<open>SourceFile\<close>) is a library and not among the sources; it is
  modelled by its own rules for where an added declaration goes. The structures are the
  ones the hook hands to it, field by field. A source file is its path and the sequence
  of its top-level nodes: the text it was created with, and each declaration added.
  A source file exists in memory only, until it is saved.
\<close>

datatype VariableDeclarationKind = Const | Let | Var

record ImportDeclarationStructure =
  namedImports :: "string list"
  moduleSpecifier :: string
  isTypeOnly :: bool

record VariableDeclarationStructure =
  name :: string
  initializer :: string
  type :: string

record VariableStatementStructure =
  declarationKind :: VariableDeclarationKind
  declarations :: "VariableDeclarationStructure list"
  isExported :: bool

datatype statement =
    SourceText string
  | ImportDeclaration ImportDeclarationStructure
  | VariableStatement VariableStatementStructure

record SourceFile =
  filePath :: string
  statements :: "statement list"

definition createSourceFile :: "string \<Rightarrow> string \<Rightarrow> SourceFile" where
  "createSourceFile path text = \<lparr>filePath = path, statements = [SourceText text]\<rparr>"

text \<open>
  \<^verbatim>\<open>addImportDeclaration\<close> places an import after the imports already there, or else after
  the multi-line comments that open the file, or else first. Its loop over the file's
  nodes: the index moves past a node while only \<^verbatim>\<open>/* */\<close> comments have been seen, and past
  every import. A text that opens with \<^verbatim>\<open>//\<close> comment lines, as the hook's does, is not moved
  past, so the import lands before it. \<^verbatim>\<open>addVariableStatement\<close> appends.
\<close>

fun isMultiLineComment :: "statement \<Rightarrow> bool" where
  "isMultiLineComment (SourceText t) = (take 2 t = ''/*'')"
| "isMultiLineComment child = False"

fun isImportDeclaration :: "statement \<Rightarrow> bool" where
  "isImportDeclaration (ImportDeclaration s) = True"
| "isImportDeclaration child = False"

fun getInsertIndexLoop :: "statement list \<Rightarrow> nat \<Rightarrow> bool \<Rightarrow> nat \<Rightarrow> nat" where
  "getInsertIndexLoop [] i wasLastComment insertIndex = insertIndex"
| "getInsertIndexLoop (child # rest) i wasLastComment insertIndex =
     (if wasLastComment \<and> isMultiLineComment child
        then getInsertIndexLoop rest (i + 1) True (i + 1)
      else getInsertIndexLoop rest (i + 1) False
             (if isImportDeclaration child then i + 1 else insertIndex))"

definition getInsertIndex :: "statement list \<Rightarrow> nat" where
  "getInsertIndex children = getInsertIndexLoop children 0 True 0"

definition addImportDeclaration :: "ImportDeclarationStructure \<Rightarrow> SourceFile \<Rightarrow> SourceFile" where
  "addImportDeclaration s sf =
     (let index = getInsertIndex (statements sf)
      in sf\<lparr>statements :=
              take index (statements sf) @ [ImportDeclaration s] @ drop index (statements sf)\<rparr>)"

definition addVariableStatement :: "VariableStatementStructure \<Rightarrow> SourceFile \<Rightarrow> SourceFile" where
  "addVariableStatement s sf = sf\<lparr>statements := statements sf @ [VariableStatement s]\<rparr>"

subsection \<open>Effects\<close>

datatype event =
    LoggerInfo string
  | ConsoleError string
  | ConsoleLog "string list"
  | FileWrite string string

record world =
  events :: "event list"
  files :: "string \<rightharpoonup> string"

definition emit :: "event \<Rightarrow> world \<Rightarrow> world" where
  "emit e w = w\<lparr>events := events w @ [e]\<rparr>"

definition writeFile :: "string \<Rightarrow> string \<Rightarrow> world \<Rightarrow> world" where
  "writeFile path content w =
     w\<lparr>events := events w @ [FileWrite path content], files := (files w)(path \<mapsto> content)\<rparr>"

text \<open>
  Modelled from the spec: the helpers \<^verbatim>\<open>decodeBase64ToJson\<close>, \<^verbatim>\<open>validateJsonAgainstSchema\<close>
  (with the fixed schema) and \<^verbatim>\<open>formatSourceFile\<close> of \<^verbatim>\<open>scripts/utils\<close> are not among the
  sources, so the hook takes them as parameters. The decoder returns a value or throws,
  the validator yields a boolean and nothing else, the formatter maps the saved text to
  the formatted text or throws. \<open>getFullText\<close> is the text ts-morph prints for a source
  file, and \<open>outputPath\<close> the resolved path of the generated file.
\<close>

record externals =
  decodeBase64ToJson :: "string \<Rightarrow> error + jsvalue"
  validateJsonAgainstSchema :: "jsvalue \<Rightarrow> bool"
  formatSourceFile :: "string \<Rightarrow> error + string"
  getFullText :: "statement list \<Rightarrow> string"
  outputPath :: string

definition save :: "externals \<Rightarrow> SourceFile \<Rightarrow> world \<Rightarrow> world" where
  "save X sf w = writeFile (filePath sf) (getFullText X (statements sf)) w"

subsection \<open>The plugin\<close>

definition pluginName :: string where
  "pluginName = ''generateEventIndexerConfig''"

text \<open>
  The environment is \<^verbatim>\<open>process.env\<close> once \<^verbatim>\<open>dotenv.config()\<close> has run: a variable is unset
  or holds a string. \<open>skip\<close> is computed once, when the module is loaded; the environment
  is taken to be the same when the hook runs.
\<close>

definition skip :: "(string \<rightharpoonup> string) \<Rightarrow> bool" where
  "skip env = (env ''SKIP_ENV_VALDIATION'' = Some ''true'')"

definition storeTypesAndEnums :: "SourceFile \<Rightarrow> world \<Rightarrow> SourceFile \<times> world" where
  "storeTypesAndEnums sourceFile w =
     (let w1 = emit (LoggerInfo ''Storing types...'') w;
          sourceFile1 = addImportDeclaration
            \<lparr>namedImports = [''EventIndexerConfig''],
             moduleSpecifier = ''$libs/eventIndexer'',
             isTypeOnly = True\<rparr> sourceFile;
          w2 = emit (LoggerInfo ''Types stored.'') w1
      in (sourceFile1, w2))"

definition configVariable :: "string \<Rightarrow> VariableStatementStructure" where
  "configVariable init =
     \<lparr>declarationKind = Const,
      declarations = [\<lparr>name = ''configuredEventIndexer'', initializer = init,
                       type = ''EventIndexerConfig[]''\<rparr>],
      isExported = True\<rparr>"

definition shapeErrorMessage :: string where
  "shapeErrorMessage =
     ''configuredEventIndexer is not an array. Please check the content of the configuredEventIndexerConfigFile.''"

text \<open>
  With skip off, the property is read, tested, and handed to the formatter; the last
  branch is \<^verbatim>\<open>indexer.map\<close> on a value that is not an array, which the test before it
  excludes.
\<close>

definition buildEventIndexerConfig ::
  "(string \<rightharpoonup> string) \<Rightarrow> SourceFile \<Rightarrow> jsvalue \<Rightarrow> world \<Rightarrow> (error + SourceFile) \<times> world" where
  "buildEventIndexerConfig env sourceFile configuredEventIndexerConfigFile w =
     (let w1 = emit (LoggerInfo ''Building event indexer config...'') w;
          indexer = configuredEventIndexerConfigFile
      in if \<not> skip env then
           (case getProperty indexer ''configuredEventIndexer'' of
              Inl e \<Rightarrow> (Inl e, w1)
            | Inr v \<Rightarrow>
                if \<not> truthy v \<or> \<not> isArray v then
                  (Inl (Error []), emit (ConsoleError shapeErrorMessage) w1)
                else
                  (case v of
                     JArr entries \<Rightarrow>
                       (Inr (addVariableStatement
                               (configVariable (formatObjectToTsLiteral entries)) sourceFile),
                        emit (LoggerInfo ''EventIndexer config built.'') w1)
                   | _ \<Rightarrow> (Inl TypeError, w1)))
         else
           (Inr (addVariableStatement (configVariable ''[]'') sourceFile),
            emit (LoggerInfo ''EventIndexer config built.'') w1))"

definition missingEnvMessage :: string where
  "missingEnvMessage =
     ''CONFIGURED_EVENT_INDEXER is not defined in environment. Make sure to run the export step in the documentation.''"

definition invalidMessage :: string where
  "invalidMessage = ''encoded configuredEventIndexer.json is not valid.''"

text \<open>
  Lines 32 to 49 of the source: the value of \<^verbatim>\<open>configuredEventIndexerConfigFile\<close>, or the
  error thrown. An environment variable is falsy when it is unset or the empty string.
\<close>

definition loadConfigFile :: "externals \<Rightarrow> (string \<rightharpoonup> string) \<Rightarrow> error + jsvalue" where
  "loadConfigFile X env =
     (if skip env then Inr (JStr [])
      else
        (case env ''CONFIGURED_EVENT_INDEXER'' of
           None \<Rightarrow> Inl (Error missingEnvMessage)
         | Some encoded \<Rightarrow>
             if encoded = [] then Inl (Error missingEnvMessage)
             else
               (case decodeBase64ToJson X encoded of
                  Inl e \<Rightarrow> Inl e
                | Inr decoded \<Rightarrow>
                    if \<not> validateJsonAgainstSchema X decoded then Inl (Error invalidMessage)
                    else Inr decoded)))"

definition notification :: "string \<Rightarrow> string" where
  "notification now = ''// Generated by '' @ pluginName @ '' on '' @ now"

definition warning :: string where
  "warning = ''// WARNING: Do not change this file manually as it will be overwritten''"

text \<open>
  The hook. \<open>now\<close> is the string \<^verbatim>\<open>new Date().toLocaleString()\<close> returns during the
  call. The formatter is given the path and reads the file just saved there, so it is
  applied to the saved text. The writes themselves are taken to succeed.
\<close>

definition buildStart ::
  "externals \<Rightarrow> (string \<rightharpoonup> string) \<Rightarrow> string \<Rightarrow> world \<Rightarrow> (error + unit) \<times> world" where
  "buildStart X env now w =
     (let w1 = emit (LoggerInfo ''Plugin initialized.'') w
      in case loadConfigFile X env of
           Inl e \<Rightarrow> (Inl e, w1)
         | Inr configuredEventIndexerConfigFile \<Rightarrow>
             (let tsFilePath = outputPath X;
                  sourceFile = createSourceFile tsFilePath
                    (notification now @ [CHR 0x0A] @ warning @ [CHR 0x0A]);
                  (sourceFile1, w2) = storeTypesAndEnums sourceFile w1
              in case buildEventIndexerConfig env sourceFile1 configuredEventIndexerConfigFile w2 of
                   (Inl e, w3) \<Rightarrow> (Inl e, w3)
                 | (Inr sourceFile2, w3) \<Rightarrow>
                     (let w4 = save X sourceFile2 w3
                      in case formatSourceFile X (getFullText X (statements sourceFile2)) of
                           Inl e \<Rightarrow> (Inl e, w4)
                         | Inr formatted \<Rightarrow>
                             (let w5 = emit (ConsoleLog [''formatted'', tsFilePath]) w4;
                                  w6 = writeFile tsFilePath formatted w5;
                                  w7 = emit (LoggerInfo (''Formatted config file saved to '' @ tsFilePath)) w6
                              in (Inr (), w7)))))"

subsection \<open>What is generated\<close>

text \<open>
  Wording to compare the hook with. A list of numbers or entries is "joined by
  comma-space":
\<close>

fun commaSpaceList :: "string list \<Rightarrow> string" where
  "commaSpaceList [] = []"
| "commaSpaceList [x] = x"
| "commaSpaceList (x # y # ys) = x @ '', '' @ commaSpaceList (y # ys)"

text \<open>
  The specification has the file consist of, in order: the generated-by comment with the
  timestamp, the warning comment, a type-only import of \<^verbatim>\<open>EventIndexerConfig\<close>, and one
  exported constant \<^verbatim>\<open>configuredEventIndexer\<close> of type \<^verbatim>\<open>EventIndexerConfig[]\<close> with the given
  initializer.
\<close>

definition claimedStatements :: "string \<Rightarrow> string \<Rightarrow> statement list" where
  "claimedStatements now init =
     [SourceText (''// Generated by generateEventIndexerConfig on '' @ now @ [CHR 0x0A]
                  @ ''// WARNING: Do not change this file manually as it will be overwritten''
                  @ [CHR 0x0A]),
      ImportDeclaration
        \<lparr>namedImports = [''EventIndexerConfig''], moduleSpecifier = ''$libs/eventIndexer'',
         isTypeOnly = True\<rparr>,
      VariableStatement
        \<lparr>declarationKind = Const,
         declarations = [\<lparr>name = ''configuredEventIndexer'', initializer = init,
                          type = ''EventIndexerConfig[]''\<rparr>],
         isExported = True\<rparr>]"

text \<open>
  The same parts with the import first: the type-only import, then the two comments,
  then the constant.
\<close>

definition builtStatements :: "string \<Rightarrow> string \<Rightarrow> statement list" where
  "builtStatements now init =
     [ImportDeclaration
        \<lparr>namedImports = [''EventIndexerConfig''], moduleSpecifier = ''$libs/eventIndexer'',
         isTypeOnly = True\<rparr>,
      SourceText (''// Generated by generateEventIndexerConfig on '' @ now @ [CHR 0x0A]
                  @ ''// WARNING: Do not change this file manually as it will be overwritten''
                  @ [CHR 0x0A]),
      VariableStatement
        \<lparr>declarationKind = Const,
         declarations = [\<lparr>name = ''configuredEventIndexer'', initializer = init,
                          type = ''EventIndexerConfig[]''\<rparr>],
         isExported = True\<rparr>]"

text \<open>
  The assembled text is saved, then passed through the formatter, and the formatted text
  replaces the saved file. \<open>specSaved\<close> is the world once the assembled text is saved,
  \<open>specRun\<close> the outcome of a run that got as far as saving.
\<close>

definition specSaved :: "externals \<Rightarrow> string \<Rightarrow> string \<Rightarrow> world \<Rightarrow> world" where
  "specSaved X now init w =
     w\<lparr>events := events w @
          [LoggerInfo ''Plugin initialized.'',
           LoggerInfo ''Storing types...'',
           LoggerInfo ''Types stored.'',
           LoggerInfo ''Building event indexer config...'',
           LoggerInfo ''EventIndexer config built.'',
           FileWrite (outputPath X) (getFullText X (builtStatements now init))],
       files := (files w)(outputPath X \<mapsto> getFullText X (builtStatements now init))\<rparr>"

definition specRun :: "externals \<Rightarrow> string \<Rightarrow> string \<Rightarrow> world \<Rightarrow> (error + unit) \<times> world" where
  "specRun X now init w =
     (case formatSourceFile X (getFullText X (builtStatements now init)) of
        Inl e \<Rightarrow> (Inl e, specSaved X now init w)
      | Inr formatted \<Rightarrow>
          (Inr (),
           w\<lparr>events := events (specSaved X now init w) @
                [ConsoleLog [''formatted'', outputPath X],
                 FileWrite (outputPath X) formatted,
                 LoggerInfo (''Formatted config file saved to '' @ outputPath X)],
             files := (files w)(outputPath X \<mapsto> formatted)\<rparr>))"

subsection \<open>Concrete inputs\<close>

text \<open>
  Sample inputs on which the theorems below are exercised. The sample decoder knows
  three encoded payloads: a well-formed configuration with two entries (the base64 text
  \<open>encodedEntries\<close>), an object whose \<^verbatim>\<open>configuredEventIndexer\<close> is the string
  \<^verbatim>\<open>oops\<close> (\<open>encodedString\<close>), and the empty object. The sample validator
  accepts exactly the values whose \<^verbatim>\<open>configuredEventIndexer\<close> property is an array, as
  the schema the specification describes does; the lenient validator is that schema
  without the property being required, and accepts an object that lacks it as well. The
  sample printer and formatter are stand-ins for ts-morph and the code formatter.
\<close>

definition sampleEntries :: "EventIndexerConfig list" where
  "sampleEntries =
     [\<lparr>chainIds = Some [1, 10], url = ''https://x.test''\<rparr>,
      \<lparr>chainIds = None, url = ''https://y.test''\<rparr>]"

definition encodedEntries :: string where
  "encodedEntries = ''eyJjb25maWd1cmVkRXZlbnRJbmRleGVyIjpbeyJjaGFpbklkcyI6WzEsMTBdLCJ1cmwiOiJodHRwczovL3gudGVzdCJ9LHsidXJsIjoiaHR0cHM6Ly95LnRlc3QifV19''"

definition encodedString :: string where
  "encodedString = ''eyJjb25maWd1cmVkRXZlbnRJbmRleGVyIjoib29wcyJ9''"

definition sampleDecode :: "string \<Rightarrow> error + jsvalue" where
  "sampleDecode encoded =
     (if encoded = encodedEntries
        then Inr (JObj [(''configuredEventIndexer'', JArr sampleEntries)])
      else if encoded = encodedString
        then Inr (JObj [(''configuredEventIndexer'', JStr ''oops'')])
      else if encoded = ''e30='' then Inr (JObj [])
      else Inl (Error ''Unexpected token''))"

definition sampleValidate :: "jsvalue \<Rightarrow> bool" where
  "sampleValidate v =
     (case getProperty v ''configuredEventIndexer'' of Inl e \<Rightarrow> False | Inr a \<Rightarrow> isArray a)"

definition lenientValidate :: "jsvalue \<Rightarrow> bool" where
  "lenientValidate v =
     (case getProperty v ''configuredEventIndexer'' of
        Inl e \<Rightarrow> False
      | Inr a \<Rightarrow> a = JUndefined \<or> isArray a)"

fun samplePrint :: "statement \<Rightarrow> string" where
  "samplePrint (SourceText t) = t"
| "samplePrint (ImportDeclaration i) =
     ''import '' @ (if isTypeOnly i then ''type '' else []) @ ''{ ''
       @ commaSpaceList (namedImports i) @ '' } from '' @ moduleSpecifier i @ [CHR 0x0A]"
| "samplePrint (VariableStatement s) =
     (if isExported s then ''export '' else []) @ ''const ''
       @ commaSpaceList (map (\<lambda>d. name d @ '': '' @ type d @ '' = '' @ initializer d) (declarations s))
       @ [CHR 0x0A]"

definition sampleExternals :: externals where
  "sampleExternals =
     \<lparr>decodeBase64ToJson = sampleDecode,
      validateJsonAgainstSchema = sampleValidate,
      formatSourceFile = (\<lambda>text. Inr (text @ [CHR 0x0A])),
      getFullText = (\<lambda>ss. concat (map samplePrint ss)),
      outputPath = ''src/generated/eventIndexerConfig.ts''\<rparr>"

definition sampleWorld :: world where
  "sampleWorld =
     \<lparr>events = [],
      files = [''src/generated/eventIndexerConfig.ts'' \<mapsto> ''export const stale = 0''] \<rparr>"

section \<open>Properties\<close>

subsection \<open>The formatter\<close>

lemma joinLoop_False: "joinLoop toStr sep R False xs = R @ concat (map (\<lambda>x. sep @ toStr x) xs)"
  by (induction xs arbitrary: R) simp_all

lemma commaSpaceList_Cons:
  "commaSpaceList (x # xs) = x @ concat (map (\<lambda>y. '', '' @ y) xs)"
  by (induction xs arbitrary: x) simp_all

lemma join_commaSpaceList: "join toStr '', '' xs = commaSpaceList (map toStr xs)"
proof (cases xs)
  case Nil
  then show ?thesis by (simp add: join_def)
next
  case (Cons x ys)
  have "join toStr '', '' (x # ys) = toStr x @ concat (map (\<lambda>y. '', '' @ toStr y) ys)"
    unfolding join_def using joinLoop_False [of toStr "'', ''" "toStr x" ys] by simp
  also have "\<dots> = commaSpaceList (map toStr (x # ys))"
    unfolding list.map commaSpaceList_Cons by (simp add: comp_def)
  finally show ?thesis using Cons by simp
qed

lemma digitChar_digit: "digitChar d \<in> set ''0123456789''"
  unfolding digitChar_def by (rule nth_mem) simp

lemma digitChar_no_quote: "digitChar d \<noteq> CHR 0x22"
  using digitChar_digit [of d] by auto

lemma digitsOf_no_quote: "CHR 0x22 \<notin> set (digitsOf n)"
proof (induction n rule: digitsOf.induct)
  case (1 n)
  then show ?case
    using digitChar_no_quote [of n] digitChar_no_quote [of "n mod 10"]
    by (cases "n < 10") (auto simp add: digitsOf.simps [of n])
qed

lemma numberToString_no_quote: "CHR 0x22 \<notin> set (numberToString i)"
  by (simp add: numberToString_def digitsOf_no_quote)

lemma joinLoop_no_quote:
  "CHR 0x22 \<notin> set R \<Longrightarrow> CHR 0x22 \<notin> set (joinLoop numberToString '', '' R first ids)"
  by (induction ids arbitrary: R first) (simp_all add: numberToString_no_quote)

subsection \<open>The runs of the hook\<close>

lemma loadConfigFile_skip: "skip env \<Longrightarrow> loadConfigFile X env = Inr (JStr [])"
  by (simp add: loadConfigFile_def)

lemma loadConfigFile_missing:
  "\<not> skip env \<Longrightarrow> env ''CONFIGURED_EVENT_INDEXER'' = None \<or> env ''CONFIGURED_EVENT_INDEXER'' = Some []
     \<Longrightarrow> loadConfigFile X env = Inl (Error missingEnvMessage)"
  by (auto simp add: loadConfigFile_def)

lemma loadConfigFile_present:
  "\<not> skip env \<Longrightarrow> env ''CONFIGURED_EVENT_INDEXER'' = Some encoded \<Longrightarrow> encoded \<noteq> []
     \<Longrightarrow> loadConfigFile X env =
         (case decodeBase64ToJson X encoded of
            Inl e \<Rightarrow> Inl e
          | Inr decoded \<Rightarrow>
              if validateJsonAgainstSchema X decoded then Inr decoded else Inl (Error invalidMessage))"
  by (simp add: loadConfigFile_def split: sum.splits)

lemma loadConfigFile_Inr:
  "\<not> skip env \<Longrightarrow> loadConfigFile X env = Inr cfg \<Longrightarrow>
     \<exists>encoded. env ''CONFIGURED_EVENT_INDEXER'' = Some encoded \<and> encoded \<noteq> []
       \<and> decodeBase64ToJson X encoded = Inr cfg \<and> validateJsonAgainstSchema X cfg"
  by (auto simp add: loadConfigFile_def split: option.splits if_splits sum.splits)

lemma buildStart_load_error:
  "loadConfigFile X env = Inl e \<Longrightarrow>
     buildStart X env now w = (Inl e, w\<lparr>events := events w @ [LoggerInfo ''Plugin initialized.'']\<rparr>)"
  by (simp add: buildStart_def emit_def)

lemma storeTypesAndEnums_eq:
  "storeTypesAndEnums sf w =
     (addImportDeclaration
        \<lparr>namedImports = [''EventIndexerConfig''], moduleSpecifier = ''$libs/eventIndexer'',
         isTypeOnly = True\<rparr> sf,
      w\<lparr>events := events w @ [LoggerInfo ''Storing types...'', LoggerInfo ''Types stored.'']\<rparr>)"
  by (simp add: storeTypesAndEnums_def emit_def)

lemma buildEventIndexerConfig_skip:
  "skip env \<Longrightarrow>
     buildEventIndexerConfig env sf cfg w =
       (Inr (addVariableStatement (configVariable ''[]'') sf),
        w\<lparr>events := events w @ [LoggerInfo ''Building event indexer config...'',
                                  LoggerInfo ''EventIndexer config built.'']\<rparr>)"
  by (simp add: buildEventIndexerConfig_def emit_def)

lemma buildEventIndexerConfig_array:
  "\<not> skip env \<Longrightarrow> getProperty cfg ''configuredEventIndexer'' = Inr (JArr entries) \<Longrightarrow>
     buildEventIndexerConfig env sf cfg w =
       (Inr (addVariableStatement (configVariable (formatObjectToTsLiteral entries)) sf),
        w\<lparr>events := events w @ [LoggerInfo ''Building event indexer config...'',
                                  LoggerInfo ''EventIndexer config built.'']\<rparr>)"
  by (simp add: buildEventIndexerConfig_def emit_def)

lemma buildEventIndexerConfig_shape:
  "\<not> skip env \<Longrightarrow> getProperty cfg ''configuredEventIndexer'' = Inr v \<Longrightarrow>
     \<not> truthy v \<or> \<not> isArray v \<Longrightarrow>
     buildEventIndexerConfig env sf cfg w =
       (Inl (Error []),
        w\<lparr>events := events w @ [LoggerInfo ''Building event indexer config...'',
                                  ConsoleError shapeErrorMessage]\<rparr>)"
  by (auto simp add: buildEventIndexerConfig_def emit_def)

lemma buildEventIndexerConfig_no_property:
  "\<not> skip env \<Longrightarrow> getProperty cfg ''configuredEventIndexer'' = Inl e \<Longrightarrow>
     buildEventIndexerConfig env sf cfg w =
       (Inl e, w\<lparr>events := events w @ [LoggerInfo ''Building event indexer config...'']\<rparr>)"
  by (simp add: buildEventIndexerConfig_def emit_def)

lemma buildStart_built:
  assumes load: "loadConfigFile X env = Inr cfg"
    and build: "\<And>sf w'. buildEventIndexerConfig env sf cfg w' =
       (Inr (addVariableStatement (configVariable init) sf),
        w'\<lparr>events := events w' @ [LoggerInfo ''Building event indexer config...'',
                                    LoggerInfo ''EventIndexer config built.'']\<rparr>)"
  shows "buildStart X env now w = specRun X now init w"
  unfolding buildStart_def load storeTypesAndEnums_eq
  by (simp add: Let_def build save_def writeFile_def emit_def specRun_def specSaved_def
      addVariableStatement_def addImportDeclaration_def createSourceFile_def
      getInsertIndex_def configVariable_def builtStatements_def notification_def warning_def
      pluginName_def
      split: sum.splits)

lemma buildStart_skip: "skip env \<Longrightarrow> buildStart X env now w = specRun X now ''[]'' w"
  by (rule buildStart_built) (simp_all add: loadConfigFile_skip buildEventIndexerConfig_skip)

lemma buildStart_array:
  "\<not> skip env \<Longrightarrow> loadConfigFile X env = Inr cfg \<Longrightarrow>
     getProperty cfg ''configuredEventIndexer'' = Inr (JArr entries) \<Longrightarrow>
     buildStart X env now w = specRun X now (formatObjectToTsLiteral entries) w"
  using buildEventIndexerConfig_array [of env cfg entries]
  by (intro buildStart_built) simp_all

lemma buildStart_shape:
  "\<not> skip env \<Longrightarrow> loadConfigFile X env = Inr cfg \<Longrightarrow>
     getProperty cfg ''configuredEventIndexer'' = Inr v \<Longrightarrow> \<not> truthy v \<or> \<not> isArray v \<Longrightarrow>
     buildStart X env now w =
       (Inl (Error []),
        w\<lparr>events := events w @
             [LoggerInfo ''Plugin initialized.'',
              LoggerInfo ''Storing types...'',
              LoggerInfo ''Types stored.'',
              LoggerInfo ''Building event indexer config...'',
              ConsoleError shapeErrorMessage]\<rparr>)"
  unfolding buildStart_def storeTypesAndEnums_eq
  using buildEventIndexerConfig_shape [of env cfg v]
  by (simp add: Let_def emit_def)

lemma buildStart_no_property:
  "\<not> skip env \<Longrightarrow> loadConfigFile X env = Inr cfg \<Longrightarrow>
     getProperty cfg ''configuredEventIndexer'' = Inl e \<Longrightarrow>
     buildStart X env now w =
       (Inl e,
        w\<lparr>events := events w @
             [LoggerInfo ''Plugin initialized.'',
              LoggerInfo ''Storing types...'',
              LoggerInfo ''Types stored.'',
              LoggerInfo ''Building event indexer config...'']\<rparr>)"
  unfolding buildStart_def storeTypesAndEnums_eq
  using buildEventIndexerConfig_no_property [of env cfg e]
  by (simp add: Let_def emit_def)

lemma truthy_array: "\<not> (\<not> truthy v \<or> \<not> isArray v) \<Longrightarrow> \<exists>entries. v = JArr entries"
  by (cases v) simp_all

lemma specRun_success:
  "fst (specRun X now init w) = Inr () \<Longrightarrow>
     \<exists>formatted. formatSourceFile X (getFullText X (builtStatements now init)) = Inr formatted"
  by (auto simp add: specRun_def split: sum.splits)

lemma specRun_files:
  "formatSourceFile X (getFullText X (builtStatements now init)) = Inr formatted \<Longrightarrow>
     fst (specRun X now init w) = Inr ()
     \<and> files (snd (specRun X now init w)) = (files w)(outputPath X \<mapsto> formatted)"
  by (simp add: specRun_def)

lemma buildStart_success_cases:
  assumes ok: "fst (buildStart X env now w) = Inr ()"
  shows "(skip env \<and> (\<forall>w'. buildStart X env now w' = specRun X now ''[]'' w'))
    \<or> (\<not> skip env \<and> (\<exists>encoded decoded entries.
          env ''CONFIGURED_EVENT_INDEXER'' = Some encoded \<and> encoded \<noteq> []
          \<and> decodeBase64ToJson X encoded = Inr decoded \<and> validateJsonAgainstSchema X decoded
          \<and> getProperty decoded ''configuredEventIndexer'' = Inr (JArr entries)
          \<and> (\<forall>w'. buildStart X env now w' = specRun X now (formatObjectToTsLiteral entries) w')))"
proof (cases "skip env")
  case True
  then show ?thesis by (simp add: buildStart_skip)
next
  case False
  obtain cfg where load: "loadConfigFile X env = Inr cfg"
    using ok buildStart_load_error [of X env _ now w] by (cases "loadConfigFile X env") auto
  from loadConfigFile_Inr [OF False load] obtain encoded where
    enc: "env ''CONFIGURED_EVENT_INDEXER'' = Some encoded" "encoded \<noteq> []"
      "decodeBase64ToJson X encoded = Inr cfg" "validateJsonAgainstSchema X cfg"
    by blast
  obtain v where field: "getProperty cfg ''configuredEventIndexer'' = Inr v"
    using ok buildStart_no_property [OF False load, of _ now w]
    by (cases "getProperty cfg ''configuredEventIndexer''") auto
  have "\<not> (\<not> truthy v \<or> \<not> isArray v)"
  proof
    assume "\<not> truthy v \<or> \<not> isArray v"
    then have "fst (buildStart X env now w) = Inl (Error [])"
      using buildStart_shape [OF False load field, of now w] by simp
    with ok show False by simp
  qed
  then obtain entries where "v = JArr entries" using truthy_array by blast
  with field have arr: "getProperty cfg ''configuredEventIndexer'' = Inr (JArr entries)" by simp
  have "\<forall>w'. buildStart X env now w' = specRun X now (formatObjectToTsLiteral entries) w'"
    using buildStart_array [OF False load arr] by simp
  with False enc arr show ?thesis by blast
qed

lemma loadConfigFile_valid:
  "\<not> skip env \<Longrightarrow> env ''CONFIGURED_EVENT_INDEXER'' = Some encoded \<Longrightarrow> encoded \<noteq> [] \<Longrightarrow>
     decodeBase64ToJson X encoded = Inr decoded \<Longrightarrow> validateJsonAgainstSchema X decoded \<Longrightarrow>
     loadConfigFile X env = Inr decoded"
  by (simp add: loadConfigFile_present)

lemma commaSpaceList_join_id: "join id '', '' xs = commaSpaceList xs"
  using join_commaSpaceList [of id xs] by simp

lemma loadConfigFile_decoder_throws:
  assumes "\<not> skip env" and "\<And>encoded. decodeBase64ToJson X encoded = Inl TypeError"
  shows "\<exists>e. loadConfigFile X env = Inl e"
  using assms by (simp add: loadConfigFile_def split: option.splits)

section \<open>The claims\<close>

text \<open>
  C1. When \<^verbatim>\<open>SKIP_ENV_VALDIATION\<close> is \<^verbatim>\<open>true\<close>, the hook generates the file whose exported
  constant is initialized to \<^verbatim>\<open>[]\<close>: its run is the run the specification describes for
  the initializer \<^verbatim>\<open>[]\<close>. The run is the same for every decoder and validator and for
  every other environment in which the variable is \<^verbatim>\<open>true\<close>, so nothing of
  \<^verbatim>\<open>CONFIGURED_EVENT_INDEXER\<close> is read, decoded or validated.
\<close>

theorem skip_generates_empty_array:
  assumes "env ''SKIP_ENV_VALDIATION'' = Some ''true''"
    and "env' ''SKIP_ENV_VALDIATION'' = Some ''true''"
  shows "buildStart X env now w = specRun X now ''[]'' w
    \<and> buildStart (X\<lparr>decodeBase64ToJson := decode', validateJsonAgainstSchema := validate'\<rparr>)
         env' now w = buildStart X env now w"
proof -
  let ?X' = "X\<lparr>decodeBase64ToJson := decode', validateJsonAgainstSchema := validate'\<rparr>"
  from assms have s: "skip env" "skip env'" by (simp_all add: skip_def)
  have "specRun ?X' now ''[]'' w = specRun X now ''[]'' w"
    by (simp add: specRun_def specSaved_def split: sum.splits)
  with s show ?thesis by (simp add: buildStart_skip)
qed

theorem skip_generates_empty_array_witness:
  "buildStart sampleExternals [''SKIP_ENV_VALDIATION'' \<mapsto> ''true''] ''1/2/2024, 3:04:05 PM'' sampleWorld
     = specRun sampleExternals ''1/2/2024, 3:04:05 PM'' ''[]'' sampleWorld
   \<and> buildStart
        (sampleExternals\<lparr>decodeBase64ToJson := (\<lambda>s. Inl TypeError),
                          validateJsonAgainstSchema := (\<lambda>v. False)\<rparr>)
        [''SKIP_ENV_VALDIATION'' \<mapsto> ''true'', ''CONFIGURED_EVENT_INDEXER'' \<mapsto> ''not base64'']
        ''1/2/2024, 3:04:05 PM'' sampleWorld
     = buildStart sampleExternals [''SKIP_ENV_VALDIATION'' \<mapsto> ''true''] ''1/2/2024, 3:04:05 PM'' sampleWorld"
  using skip_generates_empty_array
    [where env = "[''SKIP_ENV_VALDIATION'' \<mapsto> ''true'']"
       and env' = "[''SKIP_ENV_VALDIATION'' \<mapsto> ''true'', ''CONFIGURED_EVENT_INDEXER'' \<mapsto> ''not base64'']"
       and X = sampleExternals and now = "''1/2/2024, 3:04:05 PM''" and w = sampleWorld
       and decode' = "\<lambda>s. Inl TypeError" and validate' = "\<lambda>v. False"]
  by simp

text \<open>
  C2. When skip mode is not active and \<^verbatim>\<open>CONFIGURED_EVENT_INDEXER\<close> is unset or empty, the
  hook throws an error with the descriptive message; all it has done by then is the first
  logger call, so nothing was written and the files are as they were.
\<close>

theorem missing_variable_throws_before_write:
  assumes "env ''SKIP_ENV_VALDIATION'' \<noteq> Some ''true''"
    and "env ''CONFIGURED_EVENT_INDEXER'' = None \<or> env ''CONFIGURED_EVENT_INDEXER'' = Some []"
  shows "buildStart X env now w =
     (Inl (Error ''CONFIGURED_EVENT_INDEXER is not defined in environment. Make sure to run the export step in the documentation.''),
      w\<lparr>events := events w @ [LoggerInfo ''Plugin initialized.'']\<rparr>)
    \<and> files (snd (buildStart X env now w)) = files w"
proof -
  from assms(1) have "\<not> skip env" by (simp add: skip_def)
  then have "loadConfigFile X env = Inl (Error missingEnvMessage)"
    using assms(2) by (rule loadConfigFile_missing)
  then show ?thesis by (simp add: buildStart_load_error missingEnvMessage_def)
qed

theorem missing_variable_throws_before_write_witness:
  "buildStart sampleExternals [''CONFIGURED_EVENT_INDEXER'' \<mapsto> []] ''now'' sampleWorld =
     (Inl (Error ''CONFIGURED_EVENT_INDEXER is not defined in environment. Make sure to run the export step in the documentation.''),
      sampleWorld\<lparr>events := events sampleWorld @ [LoggerInfo ''Plugin initialized.'']\<rparr>)
   \<and> files (snd (buildStart sampleExternals [''CONFIGURED_EVENT_INDEXER'' \<mapsto> []] ''now'' sampleWorld))
       = files sampleWorld"
  using missing_variable_throws_before_write
    [where env = "[''CONFIGURED_EVENT_INDEXER'' \<mapsto> []]" and X = sampleExternals
       and now = "''now''" and w = sampleWorld]
  by simp

text \<open>
  C3. For a decoded configuration that the validator accepts and whose
  \<^verbatim>\<open>configuredEventIndexer\<close> is an array, the initializer of the generated constant is a
  bracketed comma-space list of rendered entries: as many as there are input entries, the
  \<open>i\<close>-th being the rendering of the \<open>i\<close>-th input entry.
\<close>

theorem one_rendered_entry_per_input:
  assumes "env ''SKIP_ENV_VALDIATION'' \<noteq> Some ''true''"
    and "env ''CONFIGURED_EVENT_INDEXER'' = Some encoded" and "encoded \<noteq> []"
    and "decodeBase64ToJson X encoded = Inr decoded"
    and "validateJsonAgainstSchema X decoded"
    and "getProperty decoded ''configuredEventIndexer'' = Inr (JArr entries)"
  shows "\<exists>rendered. length rendered = length entries
    \<and> (\<forall>i<length entries. rendered ! i = formatEventIndexerConfigToTsLiteral (entries ! i))
    \<and> buildStart X env now w = specRun X now (''['' @ commaSpaceList rendered @ '']'') w"
proof -
  let ?rendered = "map formatEventIndexerConfigToTsLiteral entries"
  from assms(1) have ns: "\<not> skip env" by (simp add: skip_def)
  then have "loadConfigFile X env = Inr decoded"
    using assms(2-5) by (rule loadConfigFile_valid)
  with ns have "buildStart X env now w = specRun X now (formatObjectToTsLiteral entries) w"
    using assms(6) by (rule buildStart_array)
  moreover have "formatObjectToTsLiteral entries = ''['' @ commaSpaceList ?rendered @ '']''"
    by (simp add: formatObjectToTsLiteral_def commaSpaceList_join_id)
  ultimately have "buildStart X env now w = specRun X now (''['' @ commaSpaceList ?rendered @ '']'') w"
    by simp
  moreover have "length ?rendered = length entries" by simp
  moreover have "\<forall>i<length entries. ?rendered ! i = formatEventIndexerConfigToTsLiteral (entries ! i)"
    by simp
  ultimately show ?thesis by blast
qed

theorem one_rendered_entry_per_input_witness:
  "\<exists>rendered. length rendered = length sampleEntries
    \<and> (\<forall>i<length sampleEntries. rendered ! i = formatEventIndexerConfigToTsLiteral (sampleEntries ! i))
    \<and> buildStart sampleExternals [''CONFIGURED_EVENT_INDEXER'' \<mapsto> encodedEntries] ''now'' sampleWorld
        = specRun sampleExternals ''now'' (''['' @ commaSpaceList rendered @ '']'') sampleWorld"
  using one_rendered_entry_per_input
    [where env = "[''CONFIGURED_EVENT_INDEXER'' \<mapsto> encodedEntries]" and encoded = encodedEntries
       and X = sampleExternals and decoded = "JObj [(''configuredEventIndexer'', JArr sampleEntries)]"
       and entries = sampleEntries and now = "''now''" and w = sampleWorld]
  by (simp add: sampleExternals_def sampleDecode_def sampleValidate_def encodedEntries_def)

text \<open>
  C4. An entry with chain identifiers \<open>ns\<close>, each a safe integer, and URL \<open>u\<close> is rendered
  as \<^verbatim>\<open>{chainIds: [n1, n2, ...], url: "u"}\<close> with the numbers, in decimal, joined by
  comma-space; chain identifiers 1 and 10 with the URL \<^verbatim>\<open>https://x.test\<close> give exactly
  \<^verbatim>\<open>{chainIds: [1, 10], url: "https://x.test"}\<close>.
\<close>

theorem format_entry_exact:
  assumes "\<forall>n \<in> set ns. isSafeInteger n"
  shows \<open>formatEventIndexerConfigToTsLiteral \<lparr>chainIds = Some ns, url = u\<rparr>
     = ''{chainIds: ['' @ commaSpaceList (map numberToString ns) @ ''], url: "'' @ u @ ''"}''
   \<and> formatEventIndexerConfigToTsLiteral \<lparr>chainIds = Some [1, 10], url = ''https://x.test''\<rparr>
     = ''{chainIds: [1, 10], url: "https://x.test"}''\<close>
proof
  show \<open>formatEventIndexerConfigToTsLiteral \<lparr>chainIds = Some ns, url = u\<rparr>
     = ''{chainIds: ['' @ commaSpaceList (map numberToString ns) @ ''], url: "'' @ u @ ''"}''\<close>
    by (simp add: formatEventIndexerConfigToTsLiteral_def join_commaSpaceList)
  show \<open>formatEventIndexerConfigToTsLiteral \<lparr>chainIds = Some [1, 10], url = ''https://x.test''\<rparr>
     = ''{chainIds: [1, 10], url: "https://x.test"}''\<close>
    by (simp add: formatEventIndexerConfigToTsLiteral_def join_def numberToString_def
        digitsOf.simps digitChar_def)
qed

theorem format_entry_exact_witness:
  \<open>isSafeInteger 137 \<and> isSafeInteger (- 5) \<and> isSafeInteger 0
   \<and> formatEventIndexerConfigToTsLiteral \<lparr>chainIds = Some [137, -5, 0], url = ''u''\<rparr>
     = ''{chainIds: [137, -5, 0], url: "u"}''\<close>
proof -
  have safe: "\<forall>n \<in> set [137, -5, 0]. isSafeInteger n" by (simp add: isSafeInteger_def)
  show ?thesis
    using safe format_entry_exact [OF safe, of "''u''"]
    by (simp add: numberToString_def digitsOf.simps digitChar_def)
qed

text \<open>
  C5. (amended) When skip mode is not active and the decoded payload has no
  \<^verbatim>\<open>configuredEventIndexer\<close> that is an array (the property is missing, falsy or not an
  array, or the payload is \<^verbatim>\<open>null\<close>), the hook throws, and by then it has only logged:
  nothing was written and the files are as they were. Which error, and whether the
  message went to the error output first, depends on the validator and the payload. A
  payload the validator rejects gives the validation error after the first logger call,
  without the message. An accepted payload whose property can be read gives the message
  on the error output and then an error with an empty message. An accepted payload that
  is \<^verbatim>\<open>null\<close> gives the TypeError of reading the property, without the message.
\<close>

theorem shape_error_logged_then_thrown:
  assumes "env ''SKIP_ENV_VALDIATION'' \<noteq> Some ''true''"
    and "env ''CONFIGURED_EVENT_INDEXER'' = Some encoded" and "encoded \<noteq> []"
    and "decodeBase64ToJson X encoded = Inr decoded"
    and "\<And>v. getProperty decoded ''configuredEventIndexer'' = Inr v \<Longrightarrow> \<not> truthy v \<or> \<not> isArray v"
  shows "buildStart X env now w =
     (if \<not> validateJsonAgainstSchema X decoded then
        (Inl (Error ''encoded configuredEventIndexer.json is not valid.''),
         w\<lparr>events := events w @ [LoggerInfo ''Plugin initialized.'']\<rparr>)
      else
        (case getProperty decoded ''configuredEventIndexer'' of
           Inr v \<Rightarrow>
             (Inl (Error []),
              w\<lparr>events := events w @
                   [LoggerInfo ''Plugin initialized.'',
                    LoggerInfo ''Storing types...'',
                    LoggerInfo ''Types stored.'',
                    LoggerInfo ''Building event indexer config...'',
                    ConsoleError ''configuredEventIndexer is not an array. Please check the content of the configuredEventIndexerConfigFile.'']\<rparr>)
         | Inl e \<Rightarrow>
             (Inl e,
              w\<lparr>events := events w @
                   [LoggerInfo ''Plugin initialized.'',
                    LoggerInfo ''Storing types...'',
                    LoggerInfo ''Types stored.'',
                    LoggerInfo ''Building event indexer config...'']\<rparr>)))
    \<and> files (snd (buildStart X env now w)) = files w"
proof -
  from assms(1) have ns: "\<not> skip env" by (simp add: skip_def)
  show ?thesis
  proof (cases "validateJsonAgainstSchema X decoded")
    case False
    with ns have "loadConfigFile X env = Inl (Error invalidMessage)"
      using assms(2-4) by (simp add: loadConfigFile_present)
    with False show ?thesis by (simp add: buildStart_load_error invalidMessage_def)
  next
    case True
    with ns have load: "loadConfigFile X env = Inr decoded"
      using assms(2-4) by (simp add: loadConfigFile_valid)
    show ?thesis
    proof (cases "getProperty decoded ''configuredEventIndexer''")
      case (Inl e)
      with True show ?thesis
        using buildStart_no_property [OF ns load Inl, of now w] by simp
    next
      case (Inr v)
      with True show ?thesis
        using buildStart_shape [OF ns load Inr assms(5) [OF Inr], of now w]
        by (simp add: shapeErrorMessage_def)
    qed
  qed
qed

theorem shape_error_logged_then_thrown_witness:
  "buildStart sampleExternals [''CONFIGURED_EVENT_INDEXER'' \<mapsto> encodedString] ''now'' sampleWorld =
     (Inl (Error ''encoded configuredEventIndexer.json is not valid.''),
      sampleWorld\<lparr>events := [LoggerInfo ''Plugin initialized.'']\<rparr>)
   \<and> buildStart (sampleExternals\<lparr>validateJsonAgainstSchema := lenientValidate\<rparr>)
        [''CONFIGURED_EVENT_INDEXER'' \<mapsto> ''e30=''] ''now'' sampleWorld =
     (Inl (Error []),
      sampleWorld\<lparr>events :=
           [LoggerInfo ''Plugin initialized.'',
            LoggerInfo ''Storing types...'',
            LoggerInfo ''Types stored.'',
            LoggerInfo ''Building event indexer config...'',
            ConsoleError ''configuredEventIndexer is not an array. Please check the content of the configuredEventIndexerConfigFile.'']\<rparr>)
   \<and> files (snd (buildStart (sampleExternals\<lparr>validateJsonAgainstSchema := lenientValidate\<rparr>)
        [''CONFIGURED_EVENT_INDEXER'' \<mapsto> ''e30=''] ''now'' sampleWorld)) = files sampleWorld"
  using shape_error_logged_then_thrown
    [where env = "[''CONFIGURED_EVENT_INDEXER'' \<mapsto> encodedString]" and encoded = encodedString
       and X = sampleExternals
       and decoded = "JObj [(''configuredEventIndexer'', JStr ''oops'')]"
       and now = "''now''" and w = sampleWorld]
    shape_error_logged_then_thrown
    [where env = "[''CONFIGURED_EVENT_INDEXER'' \<mapsto> ''e30='']" and encoded = "''e30=''"
       and X = "sampleExternals\<lparr>validateJsonAgainstSchema := lenientValidate\<rparr>"
       and decoded = "JObj []"
       and now = "''now''" and w = sampleWorld]
  by (simp add: sampleExternals_def sampleDecode_def sampleValidate_def lenientValidate_def
      encodedString_def encodedEntries_def sampleWorld_def)

text \<open>
  C5, as stated, fails where the validator rejects the payload: the sample validator
  rejects the payload whose \<^verbatim>\<open>configuredEventIndexer\<close> is the string \<^verbatim>\<open>oops\<close>, and the hook
  throws the validation error after its first logger call, without the message on the
  error output.
\<close>

theorem shape_error_not_logged_counterexample:
  "[''CONFIGURED_EVENT_INDEXER'' \<mapsto> encodedString] ''SKIP_ENV_VALDIATION'' \<noteq> Some ''true''
   \<and> decodeBase64ToJson sampleExternals encodedString
       = Inr (JObj [(''configuredEventIndexer'', JStr ''oops'')])
   \<and> getProperty (JObj [(''configuredEventIndexer'', JStr ''oops'')]) ''configuredEventIndexer''
       = Inr (JStr ''oops'')
   \<and> \<not> isArray (JStr ''oops'')
   \<and> buildStart sampleExternals [''CONFIGURED_EVENT_INDEXER'' \<mapsto> encodedString] ''now'' sampleWorld
       = (Inl (Error ''encoded configuredEventIndexer.json is not valid.''),
          sampleWorld\<lparr>events := [LoggerInfo ''Plugin initialized.'']\<rparr>)
   \<and> ConsoleError ''configuredEventIndexer is not an array. Please check the content of the configuredEventIndexerConfigFile.''
       \<notin> set (events (snd (buildStart sampleExternals
              [''CONFIGURED_EVENT_INDEXER'' \<mapsto> encodedString] ''now'' sampleWorld)))"
proof -
  have "loadConfigFile sampleExternals [''CONFIGURED_EVENT_INDEXER'' \<mapsto> encodedString]
          = Inl (Error invalidMessage)"
    by (simp add: loadConfigFile_def skip_def sampleExternals_def sampleDecode_def
        sampleValidate_def encodedString_def encodedEntries_def)
  then have "buildStart sampleExternals [''CONFIGURED_EVENT_INDEXER'' \<mapsto> encodedString] ''now'' sampleWorld
       = (Inl (Error ''encoded configuredEventIndexer.json is not valid.''),
          sampleWorld\<lparr>events := [LoggerInfo ''Plugin initialized.'']\<rparr>)"
    by (simp add: buildStart_load_error invalidMessage_def sampleWorld_def)
  then show ?thesis
    by (simp add: sampleExternals_def sampleDecode_def encodedString_def encodedEntries_def)
qed

text \<open>
  C6. When skip mode is not active, the variable is present, the decoder returns a value and
  the validator rejects it, the hook throws the validation error; all it has done by then
  is the first logger call, so no file is generated in that run.
\<close>

theorem invalid_configuration_throws:
  assumes "env ''SKIP_ENV_VALDIATION'' \<noteq> Some ''true''"
    and "env ''CONFIGURED_EVENT_INDEXER'' = Some encoded" and "encoded \<noteq> []"
    and "decodeBase64ToJson X encoded = Inr decoded"
    and "\<not> validateJsonAgainstSchema X decoded"
  shows "buildStart X env now w =
     (Inl (Error ''encoded configuredEventIndexer.json is not valid.''),
      w\<lparr>events := events w @ [LoggerInfo ''Plugin initialized.'']\<rparr>)
    \<and> files (snd (buildStart X env now w)) = files w"
proof -
  from assms(1) have "\<not> skip env" by (simp add: skip_def)
  then have "loadConfigFile X env = Inl (Error invalidMessage)"
    using assms(2-5) by (simp add: loadConfigFile_present)
  then show ?thesis by (simp add: buildStart_load_error invalidMessage_def)
qed

theorem invalid_configuration_throws_witness:
  "buildStart sampleExternals [''CONFIGURED_EVENT_INDEXER'' \<mapsto> ''e30=''] ''now'' sampleWorld =
     (Inl (Error ''encoded configuredEventIndexer.json is not valid.''),
      sampleWorld\<lparr>events := events sampleWorld @ [LoggerInfo ''Plugin initialized.'']\<rparr>)
   \<and> files (snd (buildStart sampleExternals [''CONFIGURED_EVENT_INDEXER'' \<mapsto> ''e30=''] ''now'' sampleWorld))
       = files sampleWorld"
  using invalid_configuration_throws
    [where env = "[''CONFIGURED_EVENT_INDEXER'' \<mapsto> ''e30='']" and encoded = "''e30=''"
       and X = sampleExternals and decoded = "JObj []" and now = "''now''" and w = sampleWorld]
  by (simp add: sampleExternals_def sampleDecode_def sampleValidate_def encodedEntries_def
      encodedString_def)

text \<open>
  C7. An entry whose chain identifiers are absent, or are the empty array, is rendered with
  an empty bracket: \<^verbatim>\<open>{chainIds: [], url: "<url>"}\<close>.
\<close>

theorem format_entry_no_chain_ids:
  \<open>formatEventIndexerConfigToTsLiteral \<lparr>chainIds = None, url = u\<rparr>
     = ''{chainIds: [], url: "'' @ u @ ''"}''
   \<and> formatEventIndexerConfigToTsLiteral \<lparr>chainIds = Some [], url = u\<rparr>
     = ''{chainIds: [], url: "'' @ u @ ''"}''\<close>
  by (simp add: formatEventIndexerConfigToTsLiteral_def join_def)

theorem format_entry_no_chain_ids_witness:
  \<open>formatEventIndexerConfigToTsLiteral \<lparr>chainIds = None, url = ''https://y.test''\<rparr>
     = ''{chainIds: [], url: "https://y.test"}''
   \<and> formatEventIndexerConfigToTsLiteral \<lparr>chainIds = Some [], url = ''https://y.test''\<rparr>
     = ''{chainIds: [], url: "https://y.test"}''\<close>
  using format_entry_no_chain_ids [of "''https://y.test''"] by simp

text \<open>
  C8. The URL of an entry stands in the rendered literal unchanged, between the first
  double-quote character of the literal and the closing \<^verbatim>\<open>"}\<close>: nothing before it holds a
  double quote, and no character of it is escaped. A URL that holds double quotes is
  inserted as it is.
\<close>

theorem url_embedded_verbatim:
  \<open>(\<exists>before. CHR 0x22 \<notin> set before
       \<and> formatEventIndexerConfigToTsLiteral config = before @ ''"'' @ url config @ ''"}'')
   \<and> formatEventIndexerConfigToTsLiteral \<lparr>chainIds = Some [1], url = ''https://x.test/?q="a"''\<rparr>
     = ''{chainIds: [1], url: "https://x.test/?q="a""}''\<close>
proof
  let ?ids = "case chainIds config of Some ids \<Rightarrow> join numberToString '', '' ids | None \<Rightarrow> []"
  let ?before = "''{chainIds: ['' @ ?ids @ ''], url: ''"
  have "CHR 0x22 \<notin> set ?ids"
    by (simp add: join_def joinLoop_no_quote split: option.splits)
  then have "CHR 0x22 \<notin> set ?before" by simp
  moreover have \<open>formatEventIndexerConfigToTsLiteral config = ?before @ ''"'' @ url config @ ''"}''\<close>
    by (simp add: formatEventIndexerConfigToTsLiteral_def)
  ultimately show \<open>\<exists>before. CHR 0x22 \<notin> set before
       \<and> formatEventIndexerConfigToTsLiteral config = before @ ''"'' @ url config @ ''"}''\<close>
    by blast
  show \<open>formatEventIndexerConfigToTsLiteral \<lparr>chainIds = Some [1], url = ''https://x.test/?q="a"''\<rparr>
     = ''{chainIds: [1], url: "https://x.test/?q="a""}''\<close>
    by (simp add: formatEventIndexerConfigToTsLiteral_def join_def numberToString_def
        digitsOf.simps digitChar_def)
qed

theorem url_embedded_verbatim_witness:
  \<open>\<exists>before. CHR 0x22 \<notin> set before
     \<and> formatEventIndexerConfigToTsLiteral \<lparr>chainIds = Some [1, 10], url = ''a"b''\<rparr>
         = before @ ''"a"b"}''\<close>
  using url_embedded_verbatim [of "\<lparr>chainIds = Some [1, 10], url = ''a\"b''\<rparr>"] by simp

text \<open>
  C9. (amended) A successful run writes, at the output path, the formatted text of a
  source file that consists of, in order, the type-only import of \<^verbatim>\<open>EventIndexerConfig\<close>,
  the generated-by comment with the timestamp, the warning comment, and the exported
  constant \<^verbatim>\<open>configuredEventIndexer\<close> of type \<^verbatim>\<open>EventIndexerConfig[]\<close>, initialized to \<^verbatim>\<open>[]\<close> in
  skip mode and to the formatted literal otherwise. From whatever world the run starts,
  it succeeds and leaves that same text at the output path in place of what was there,
  every other file being as before.
\<close>

theorem successful_run_writes_specified_content:
  assumes "fst (buildStart X env now w) = Inr ()"
  shows "\<exists>init formatted.
      (if env ''SKIP_ENV_VALDIATION'' = Some ''true'' then init = ''[]''
       else \<exists>encoded decoded entries.
              env ''CONFIGURED_EVENT_INDEXER'' = Some encoded
              \<and> decodeBase64ToJson X encoded = Inr decoded
              \<and> getProperty decoded ''configuredEventIndexer'' = Inr (JArr entries)
              \<and> init = formatObjectToTsLiteral entries)
    \<and> formatSourceFile X (getFullText X (builtStatements now init)) = Inr formatted
    \<and> (\<forall>w'. buildStart X env now w' = specRun X now init w'
            \<and> fst (buildStart X env now w') = Inr ()
            \<and> files (snd (buildStart X env now w')) = (files w')(outputPath X \<mapsto> formatted))"
proof -
  from buildStart_success_cases [OF assms]
  obtain init where
    init: "if skip env then init = ''[]''
       else \<exists>encoded decoded entries.
              env ''CONFIGURED_EVENT_INDEXER'' = Some encoded
              \<and> decodeBase64ToJson X encoded = Inr decoded
              \<and> getProperty decoded ''configuredEventIndexer'' = Inr (JArr entries)
              \<and> init = formatObjectToTsLiteral entries"
    and run: "\<forall>w'. buildStart X env now w' = specRun X now init w'"
    by (cases "skip env") auto
  from assms run have "fst (specRun X now init w) = Inr ()" by simp
  then obtain formatted where
    fmt: "formatSourceFile X (getFullText X (builtStatements now init)) = Inr formatted"
    using specRun_success by blast
  have "\<forall>w'. buildStart X env now w' = specRun X now init w'
            \<and> fst (buildStart X env now w') = Inr ()
            \<and> files (snd (buildStart X env now w')) = (files w')(outputPath X \<mapsto> formatted)"
    using run specRun_files [OF fmt] by simp
  with init fmt show ?thesis unfolding skip_def by blast
qed

theorem successful_run_writes_specified_content_witness:
  "\<exists>init formatted.
      (\<exists>encoded decoded entries.
              [''CONFIGURED_EVENT_INDEXER'' \<mapsto> encodedEntries] ''CONFIGURED_EVENT_INDEXER'' = Some encoded
              \<and> sampleDecode encoded = Inr decoded
              \<and> getProperty decoded ''configuredEventIndexer'' = Inr (JArr entries)
              \<and> init = formatObjectToTsLiteral entries)
    \<and> formatSourceFile sampleExternals (getFullText sampleExternals (builtStatements ''now'' init))
        = Inr formatted
    \<and> (\<forall>w'. buildStart sampleExternals [''CONFIGURED_EVENT_INDEXER'' \<mapsto> encodedEntries] ''now'' w'
              = specRun sampleExternals ''now'' init w'
            \<and> fst (buildStart sampleExternals [''CONFIGURED_EVENT_INDEXER'' \<mapsto> encodedEntries] ''now'' w')
              = Inr ()
            \<and> files (snd (buildStart sampleExternals
                  [''CONFIGURED_EVENT_INDEXER'' \<mapsto> encodedEntries] ''now'' w'))
              = (files w')(''src/generated/eventIndexerConfig.ts'' \<mapsto> formatted))"
proof -
  have ok: "fst (buildStart sampleExternals [''CONFIGURED_EVENT_INDEXER'' \<mapsto> encodedEntries]
              ''now'' sampleWorld) = Inr ()"
  proof -
    have "loadConfigFile sampleExternals [''CONFIGURED_EVENT_INDEXER'' \<mapsto> encodedEntries]
            = Inr (JObj [(''configuredEventIndexer'', JArr sampleEntries)])"
      by (simp add: loadConfigFile_def skip_def sampleExternals_def sampleDecode_def
          sampleValidate_def encodedEntries_def)
    then have "buildStart sampleExternals [''CONFIGURED_EVENT_INDEXER'' \<mapsto> encodedEntries]
              ''now'' sampleWorld
            = specRun sampleExternals ''now'' (formatObjectToTsLiteral sampleEntries) sampleWorld"
      using buildStart_array
        [where env = "[''CONFIGURED_EVENT_INDEXER'' \<mapsto> encodedEntries]" and X = sampleExternals
           and cfg = "JObj [(''configuredEventIndexer'', JArr sampleEntries)]"
           and entries = sampleEntries and now = "''now''" and w = sampleWorld]
      by (simp add: skip_def)
    then show ?thesis by (simp add: specRun_def sampleExternals_def)
  qed
  show ?thesis
    using successful_run_writes_specified_content [OF ok]
    by (simp add: sampleExternals_def)
qed

text \<open>
  C9, as stated, fails in the order of the parts: in a skip-mode run with the sample
  printer and formatter, the text left at the output path opens with the import, and the
  two comments follow it; the text in the order the claim gives, comments first, is a
  different one.
\<close>

theorem import_precedes_header_counterexample:
  "fst (buildStart sampleExternals [''SKIP_ENV_VALDIATION'' \<mapsto> ''true''] ''now'' sampleWorld) = Inr ()
   \<and> files (snd (buildStart sampleExternals [''SKIP_ENV_VALDIATION'' \<mapsto> ''true''] ''now'' sampleWorld))
        ''src/generated/eventIndexerConfig.ts''
       = Some (''import type { EventIndexerConfig } from $libs/eventIndexer'' @ [CHR 0x0A]
               @ ''// Generated by generateEventIndexerConfig on now'' @ [CHR 0x0A]
               @ ''// WARNING: Do not change this file manually as it will be overwritten'' @ [CHR 0x0A]
               @ ''export const configuredEventIndexer: EventIndexerConfig[] = []'' @ [CHR 0x0A]
               @ [CHR 0x0A])
   \<and> formatSourceFile sampleExternals (getFullText sampleExternals (claimedStatements ''now'' ''[]''))
       = Inr (''// Generated by generateEventIndexerConfig on now'' @ [CHR 0x0A]
              @ ''// WARNING: Do not change this file manually as it will be overwritten'' @ [CHR 0x0A]
              @ ''import type { EventIndexerConfig } from $libs/eventIndexer'' @ [CHR 0x0A]
              @ ''export const configuredEventIndexer: EventIndexerConfig[] = []'' @ [CHR 0x0A]
              @ [CHR 0x0A])
   \<and> files (snd (buildStart sampleExternals [''SKIP_ENV_VALDIATION'' \<mapsto> ''true''] ''now'' sampleWorld))
        ''src/generated/eventIndexerConfig.ts''
       \<noteq> Some (''// Generated by generateEventIndexerConfig on now'' @ [CHR 0x0A]
              @ ''// WARNING: Do not change this file manually as it will be overwritten'' @ [CHR 0x0A]
              @ ''import type { EventIndexerConfig } from $libs/eventIndexer'' @ [CHR 0x0A]
              @ ''export const configuredEventIndexer: EventIndexerConfig[] = []'' @ [CHR 0x0A]
              @ [CHR 0x0A])"
proof -
  have "buildStart sampleExternals [''SKIP_ENV_VALDIATION'' \<mapsto> ''true''] ''now'' sampleWorld
          = specRun sampleExternals ''now'' ''[]'' sampleWorld"
    by (rule buildStart_skip) (simp add: skip_def)
  then show ?thesis
    by (simp add: specRun_def specSaved_def builtStatements_def claimedStatements_def
        sampleExternals_def)
qed

text \<open>
  C10. The hook behaves as the skip run, whatever the decoder, validator and start,
  exactly when \<^verbatim>\<open>SKIP_ENV_VALDIATION\<close> is the string \<^verbatim>\<open>true\<close>. For every other value it takes
  the full path: it throws the missing-variable error when \<^verbatim>\<open>CONFIGURED_EVENT_INDEXER\<close> is
  unset or empty, throws what the decoder throws, throws the validation error when the
  validator rejects the decoded value, and for an accepted value with an array of
  entries runs with the formatted literal of these entries; so a run succeeds only if
  the variable is present, decodes, and is accepted. With \<^verbatim>\<open>TRUE\<close>, \<^verbatim>\<open>True\<close>, \<^verbatim>\<open>1\<close> or \<^verbatim>\<open>yes\<close> the
  hook throws the missing-variable error when \<^verbatim>\<open>CONFIGURED_EVENT_INDEXER\<close> is unset, and
  generates from the payload when it is set to an accepted one.
\<close>

theorem skip_path_iff_exactly_true:
  "((\<forall>X now w. buildStart X env now w = specRun X now ''[]'' w)
      \<longleftrightarrow> env ''SKIP_ENV_VALDIATION'' = Some ''true'')
   \<and> (env ''SKIP_ENV_VALDIATION'' \<noteq> Some ''true'' \<longrightarrow>
        (env ''CONFIGURED_EVENT_INDEXER'' = None \<or> env ''CONFIGURED_EVENT_INDEXER'' = Some [] \<longrightarrow>
           fst (buildStart X env now w)
             = Inl (Error ''CONFIGURED_EVENT_INDEXER is not defined in environment. Make sure to run the export step in the documentation.''))
        \<and> (\<forall>encoded e. env ''CONFIGURED_EVENT_INDEXER'' = Some encoded \<and> encoded \<noteq> []
               \<and> decodeBase64ToJson X encoded = Inl e \<longrightarrow>
             fst (buildStart X env now w) = Inl e)
        \<and> (\<forall>encoded decoded. env ''CONFIGURED_EVENT_INDEXER'' = Some encoded \<and> encoded \<noteq> []
               \<and> decodeBase64ToJson X encoded = Inr decoded
               \<and> \<not> validateJsonAgainstSchema X decoded \<longrightarrow>
             fst (buildStart X env now w)
               = Inl (Error ''encoded configuredEventIndexer.json is not valid.''))
        \<and> (\<forall>encoded decoded entries. env ''CONFIGURED_EVENT_INDEXER'' = Some encoded \<and> encoded \<noteq> []
               \<and> decodeBase64ToJson X encoded = Inr decoded
               \<and> validateJsonAgainstSchema X decoded
               \<and> getProperty decoded ''configuredEventIndexer'' = Inr (JArr entries) \<longrightarrow>
             buildStart X env now w = specRun X now (formatObjectToTsLiteral entries) w)
        \<and> (fst (buildStart X env now w) = Inr () \<longrightarrow>
             (\<exists>encoded decoded. env ''CONFIGURED_EVENT_INDEXER'' = Some encoded \<and> encoded \<noteq> []
                \<and> decodeBase64ToJson X encoded = Inr decoded
                \<and> validateJsonAgainstSchema X decoded)))
   \<and> (v \<in> {''TRUE'', ''True'', ''1'', ''yes''} \<longrightarrow>
        fst (buildStart X ((env(''SKIP_ENV_VALDIATION'' \<mapsto> v))(''CONFIGURED_EVENT_INDEXER'' := None)) now w)
          = Inl (Error ''CONFIGURED_EVENT_INDEXER is not defined in environment. Make sure to run the export step in the documentation.'')
        \<and> (payload \<noteq> [] \<and> decodeBase64ToJson X payload = Inr parsed
             \<and> validateJsonAgainstSchema X parsed
             \<and> getProperty parsed ''configuredEventIndexer'' = Inr (JArr items) \<longrightarrow>
            buildStart X ((env(''SKIP_ENV_VALDIATION'' \<mapsto> v))(''CONFIGURED_EVENT_INDEXER'' \<mapsto> payload)) now w
              = specRun X now (formatObjectToTsLiteral items) w))"
proof (intro conjI)
  show "(\<forall>X now w. buildStart X env now w = specRun X now ''[]'' w)
      \<longleftrightarrow> env ''SKIP_ENV_VALDIATION'' = Some ''true''"
  proof
    assume all: "\<forall>X now w. buildStart X env now w = specRun X now ''[]'' w"
    show "env ''SKIP_ENV_VALDIATION'' = Some ''true''"
    proof (rule ccontr)
      assume "env ''SKIP_ENV_VALDIATION'' \<noteq> Some ''true''"
      then have ns: "\<not> skip env" by (simp add: skip_def)
      let ?X = "sampleExternals\<lparr>decodeBase64ToJson := (\<lambda>encoded. Inl TypeError)\<rparr>"
      from ns obtain e where "loadConfigFile ?X env = Inl e"
        using loadConfigFile_decoder_throws [of env ?X] by auto
      then have "fst (buildStart ?X env [] sampleWorld) = Inl e"
        by (simp add: buildStart_load_error)
      moreover have "fst (specRun ?X [] ''[]'' sampleWorld) = Inr ()"
        by (simp add: specRun_def sampleExternals_def)
      ultimately show False using all by simp
    qed
  next
    assume "env ''SKIP_ENV_VALDIATION'' = Some ''true''"
    then have "skip env" by (simp add: skip_def)
    then show "\<forall>X now w. buildStart X env now w = specRun X now ''[]'' w"
      by (simp add: buildStart_skip)
  qed
next
  show "env ''SKIP_ENV_VALDIATION'' \<noteq> Some ''true'' \<longrightarrow>
        (env ''CONFIGURED_EVENT_INDEXER'' = None \<or> env ''CONFIGURED_EVENT_INDEXER'' = Some [] \<longrightarrow>
           fst (buildStart X env now w)
             = Inl (Error ''CONFIGURED_EVENT_INDEXER is not defined in environment. Make sure to run the export step in the documentation.''))
        \<and> (\<forall>encoded e. env ''CONFIGURED_EVENT_INDEXER'' = Some encoded \<and> encoded \<noteq> []
               \<and> decodeBase64ToJson X encoded = Inl e \<longrightarrow>
             fst (buildStart X env now w) = Inl e)
        \<and> (\<forall>encoded decoded. env ''CONFIGURED_EVENT_INDEXER'' = Some encoded \<and> encoded \<noteq> []
               \<and> decodeBase64ToJson X encoded = Inr decoded
               \<and> \<not> validateJsonAgainstSchema X decoded \<longrightarrow>
             fst (buildStart X env now w)
               = Inl (Error ''encoded configuredEventIndexer.json is not valid.''))
        \<and> (\<forall>encoded decoded entries. env ''CONFIGURED_EVENT_INDEXER'' = Some encoded \<and> encoded \<noteq> []
               \<and> decodeBase64ToJson X encoded = Inr decoded
               \<and> validateJsonAgainstSchema X decoded
               \<and> getProperty decoded ''configuredEventIndexer'' = Inr (JArr entries) \<longrightarrow>
             buildStart X env now w = specRun X now (formatObjectToTsLiteral entries) w)
        \<and> (fst (buildStart X env now w) = Inr () \<longrightarrow>
             (\<exists>encoded decoded. env ''CONFIGURED_EVENT_INDEXER'' = Some encoded \<and> encoded \<noteq> []
                \<and> decodeBase64ToJson X encoded = Inr decoded
                \<and> validateJsonAgainstSchema X decoded))"
  proof
    assume "env ''SKIP_ENV_VALDIATION'' \<noteq> Some ''true''"
    then have ns: "\<not> skip env" by (simp add: skip_def)
    have missing: "env ''CONFIGURED_EVENT_INDEXER'' = None \<or> env ''CONFIGURED_EVENT_INDEXER'' = Some [] \<longrightarrow>
           fst (buildStart X env now w)
             = Inl (Error ''CONFIGURED_EVENT_INDEXER is not defined in environment. Make sure to run the export step in the documentation.'')"
      using loadConfigFile_missing [OF ns, of X]
      by (auto simp add: buildStart_load_error missingEnvMessage_def)
    have throws: "\<forall>encoded e. env ''CONFIGURED_EVENT_INDEXER'' = Some encoded \<and> encoded \<noteq> []
               \<and> decodeBase64ToJson X encoded = Inl e \<longrightarrow>
             fst (buildStart X env now w) = Inl e"
      using ns by (auto simp add: loadConfigFile_present buildStart_load_error)
    have invalid: "\<forall>encoded decoded. env ''CONFIGURED_EVENT_INDEXER'' = Some encoded \<and> encoded \<noteq> []
               \<and> decodeBase64ToJson X encoded = Inr decoded
               \<and> \<not> validateJsonAgainstSchema X decoded \<longrightarrow>
             fst (buildStart X env now w)
               = Inl (Error ''encoded configuredEventIndexer.json is not valid.'')"
      using ns by (auto simp add: loadConfigFile_present buildStart_load_error invalidMessage_def)
    have valid: "\<forall>encoded decoded entries. env ''CONFIGURED_EVENT_INDEXER'' = Some encoded \<and> encoded \<noteq> []
               \<and> decodeBase64ToJson X encoded = Inr decoded
               \<and> validateJsonAgainstSchema X decoded
               \<and> getProperty decoded ''configuredEventIndexer'' = Inr (JArr entries) \<longrightarrow>
             buildStart X env now w = specRun X now (formatObjectToTsLiteral entries) w"
      using ns by (auto intro: buildStart_array loadConfigFile_valid)
    have success: "fst (buildStart X env now w) = Inr () \<longrightarrow>
             (\<exists>encoded decoded. env ''CONFIGURED_EVENT_INDEXER'' = Some encoded \<and> encoded \<noteq> []
                \<and> decodeBase64ToJson X encoded = Inr decoded
                \<and> validateJsonAgainstSchema X decoded)"
    proof
      assume ok: "fst (buildStart X env now w) = Inr ()"
      from buildStart_success_cases [OF ok] ns
      show "\<exists>encoded decoded. env ''CONFIGURED_EVENT_INDEXER'' = Some encoded \<and> encoded \<noteq> []
                \<and> decodeBase64ToJson X encoded = Inr decoded
                \<and> validateJsonAgainstSchema X decoded"
        by blast
    qed
    from missing throws invalid valid success
    show "(env ''CONFIGURED_EVENT_INDEXER'' = None \<or> env ''CONFIGURED_EVENT_INDEXER'' = Some [] \<longrightarrow>
           fst (buildStart X env now w)
             = Inl (Error ''CONFIGURED_EVENT_INDEXER is not defined in environment. Make sure to run the export step in the documentation.''))
        \<and> (\<forall>encoded e. env ''CONFIGURED_EVENT_INDEXER'' = Some encoded \<and> encoded \<noteq> []
               \<and> decodeBase64ToJson X encoded = Inl e \<longrightarrow>
             fst (buildStart X env now w) = Inl e)
        \<and> (\<forall>encoded decoded. env ''CONFIGURED_EVENT_INDEXER'' = Some encoded \<and> encoded \<noteq> []
               \<and> decodeBase64ToJson X encoded = Inr decoded
               \<and> \<not> validateJsonAgainstSchema X decoded \<longrightarrow>
             fst (buildStart X env now w)
               = Inl (Error ''encoded configuredEventIndexer.json is not valid.''))
        \<and> (\<forall>encoded decoded entries. env ''CONFIGURED_EVENT_INDEXER'' = Some encoded \<and> encoded \<noteq> []
               \<and> decodeBase64ToJson X encoded = Inr decoded
               \<and> validateJsonAgainstSchema X decoded
               \<and> getProperty decoded ''configuredEventIndexer'' = Inr (JArr entries) \<longrightarrow>
             buildStart X env now w = specRun X now (formatObjectToTsLiteral entries) w)
        \<and> (fst (buildStart X env now w) = Inr () \<longrightarrow>
             (\<exists>encoded decoded. env ''CONFIGURED_EVENT_INDEXER'' = Some encoded \<and> encoded \<noteq> []
                \<and> decodeBase64ToJson X encoded = Inr decoded
                \<and> validateJsonAgainstSchema X decoded))"
      by (intro conjI)
  qed
next
  show "v \<in> {''TRUE'', ''True'', ''1'', ''yes''} \<longrightarrow>
        fst (buildStart X ((env(''SKIP_ENV_VALDIATION'' \<mapsto> v))(''CONFIGURED_EVENT_INDEXER'' := None)) now w)
          = Inl (Error ''CONFIGURED_EVENT_INDEXER is not defined in environment. Make sure to run the export step in the documentation.'')
        \<and> (payload \<noteq> [] \<and> decodeBase64ToJson X payload = Inr parsed
             \<and> validateJsonAgainstSchema X parsed
             \<and> getProperty parsed ''configuredEventIndexer'' = Inr (JArr items) \<longrightarrow>
            buildStart X ((env(''SKIP_ENV_VALDIATION'' \<mapsto> v))(''CONFIGURED_EVENT_INDEXER'' \<mapsto> payload)) now w
              = specRun X now (formatObjectToTsLiteral items) w)"
  proof (intro impI conjI)
    let ?unset = "(env(''SKIP_ENV_VALDIATION'' \<mapsto> v))(''CONFIGURED_EVENT_INDEXER'' := None)"
    let ?set = "(env(''SKIP_ENV_VALDIATION'' \<mapsto> v))(''CONFIGURED_EVENT_INDEXER'' \<mapsto> payload)"
    assume v: "v \<in> {''TRUE'', ''True'', ''1'', ''yes''}"
    then have ns: "\<not> skip ?unset" "\<not> skip ?set" by (auto simp add: skip_def)
    from ns(1) have "loadConfigFile X ?unset = Inl (Error missingEnvMessage)"
      by (rule loadConfigFile_missing) simp
    then show "fst (buildStart X ?unset now w)
          = Inl (Error ''CONFIGURED_EVENT_INDEXER is not defined in environment. Make sure to run the export step in the documentation.'')"
      by (simp add: buildStart_load_error missingEnvMessage_def)
    assume p: "payload \<noteq> [] \<and> decodeBase64ToJson X payload = Inr parsed
             \<and> validateJsonAgainstSchema X parsed
             \<and> getProperty parsed ''configuredEventIndexer'' = Inr (JArr items)"
    with ns(2) have "loadConfigFile X ?set = Inr parsed"
      by (intro loadConfigFile_valid [where encoded = payload]) simp_all
    with ns(2) p show "buildStart X ?set now w = specRun X now (formatObjectToTsLiteral items) w"
      by (intro buildStart_array [where cfg = parsed]) simp_all
  qed
qed

theorem skip_path_iff_exactly_true_witness:
  "\<not> (\<forall>X now w. buildStart X [''SKIP_ENV_VALDIATION'' \<mapsto> ''TRUE''] now w = specRun X now ''[]'' w)
   \<and> fst (buildStart sampleExternals [''SKIP_ENV_VALDIATION'' \<mapsto> ''TRUE''] ''now'' sampleWorld)
       = Inl (Error ''CONFIGURED_EVENT_INDEXER is not defined in environment. Make sure to run the export step in the documentation.'')
   \<and> buildStart sampleExternals
        [''SKIP_ENV_VALDIATION'' \<mapsto> ''TRUE'', ''CONFIGURED_EVENT_INDEXER'' \<mapsto> encodedEntries]
        ''now'' sampleWorld
       = specRun sampleExternals ''now'' (formatObjectToTsLiteral sampleEntries) sampleWorld"
  using skip_path_iff_exactly_true
    [where env = "[''SKIP_ENV_VALDIATION'' \<mapsto> ''TRUE'']" and v = "''TRUE''" and X = sampleExternals
       and now = "''now''" and w = sampleWorld and payload = encodedEntries
       and parsed = "JObj [(''configuredEventIndexer'', JArr sampleEntries)]"
       and items = sampleEntries]
  by (simp add: sampleExternals_def sampleDecode_def sampleValidate_def encodedEntries_def)

end
